theory Spec2Isabelle
  imports Main "HOL-Library.Word" "HOL-Library.AList" "HOL-Library.Sublist"
begin

text \<open>
  A model of the endpoint \<open>tzevaotChat\<close> of \<open>index.js\<close>: the conversational memory
  kept per wallet address in the collection \<open>tzevaotUsers\<close>, read by GET and by POST,
  and written by POST after the completion provider has answered. The model follows the
  revision of the file that handles \<open>daysOwned\<close>; the earlier revision of the endpoint
  is the same code without that field and with a shorter prompt. The endpoints \<open>api\<close>
  and \<open>apiv2\<close> keep no state and are not modelled, nor are the CORS headers that every
  response carries.
\<close>

section \<open>JavaScript values\<close>

text \<open>
  The handler \<open>tzevaotChat\<close> works on parsed JSON (the request body, the query string)
  and on the documents of the store, and it tests their shape while it runs
  (\<open>Array.isArray\<close>, \<open>||\<close>, \<open>!!\<close>, \<open>String(d)\<close>). The values are therefore modelled
  untyped, as the code meets them. A JavaScript string is a sequence of UTF-16 code
  units. Numbers are the integers; fractions, the store's 64-bit range and the exponent
  notation of very large numbers are outside the model.
\<close>

type_synonym jsstring = "16 word list"

definition lit :: "string \<Rightarrow> jsstring" where
  "lit s = map of_char s"

datatype jsval =
    Undefined
  | Null
  | Bool bool
  | Num int
  | Str jsstring
  | Arr "jsval list"
  | Obj "(jsstring \<times> jsval) list"
  | Timestamp int

text \<open>Truthiness, as \<open>!x\<close>, \<open>!!x\<close>, \<open>x ? a : b\<close> and \<open>x || y\<close> read it.\<close>

fun truthy :: "jsval \<Rightarrow> bool" where
  "truthy Undefined = False"
| "truthy Null = False"
| "truthy (Bool b) = b"
| "truthy (Num n) = (n \<noteq> 0)"
| "truthy (Str s) = (s \<noteq> [])"
| "truthy (Arr xs) = True"
| "truthy (Obj fs) = True"
| "truthy (Timestamp t) = True"

definition js_or :: "jsval \<Rightarrow> jsval \<Rightarrow> jsval" where
  "js_or a b = (if truthy a then a else b)"

text \<open>
  Reading a property. The names read by the handler (\<open>walletAddress\<close>, \<open>history\<close>,
  \<open>from\<close>, \<open>text\<close>, ...) are defined by no built-in prototype, so only an object can
  answer with something else than \<open>undefined\<close>. \<open>get_prop\<close> is the read on a value known
  not to be \<open>null\<close> or \<open>undefined\<close>; \<open>get_member\<close> is the read that throws a TypeError there.
\<close>

fun get_prop :: "jsval \<Rightarrow> jsstring \<Rightarrow> jsval" where
  "get_prop (Obj fs) k = (case map_of fs k of None \<Rightarrow> Undefined | Some v \<Rightarrow> v)"
| "get_prop v k = Undefined"

fun get_member :: "jsval \<Rightarrow> jsstring \<Rightarrow> jsval option" where
  "get_member Undefined k = None"
| "get_member Null k = None"
| "get_member v k = Some (get_prop v k)"

fun isArray :: "jsval \<Rightarrow> bool" where
  "isArray (Arr xs) = True"
| "isArray v = False"

fun elems :: "jsval \<Rightarrow> jsval list" where
  "elems (Arr xs) = xs"
| "elems v = []"

text \<open>\<open>xs.slice(-n)\<close> for a positive \<open>n\<close>: the last \<open>n\<close> elements, all of them when there are fewer.\<close>

definition slice_last :: "nat \<Rightarrow> 'a list \<Rightarrow> 'a list" where
  "slice_last n xs = drop (length xs - n) xs"

subsection \<open>Conversion to string\<close>

fun digits :: "nat \<Rightarrow> jsstring" where
  "digits n = (if n < 10 then [of_nat (48 + n)] else digits (n div 10) @ [of_nat (48 + n mod 10)])"

declare digits.simps [simp del]

text \<open>
  \<open>String(v)\<close>, which is also the conversion of \<open>${v}\<close> in a template. \<open>None\<close> is the
  TypeError "Cannot convert object to primitive value": a JSON object with a property
  \<open>toString\<close> of its own hides the callable one, and \<open>valueOf\<close> returns the object.
  An array is joined with commas, \<open>null\<close> and \<open>undefined\<close> elements giving the empty string.
\<close>

fun js_String :: "jsval \<Rightarrow> jsstring option"
  and join_comma :: "jsval list \<Rightarrow> jsstring option"
  and elem_text :: "jsval \<Rightarrow> jsstring option" where
  "js_String Undefined = Some (lit ''undefined'')"
| "js_String Null = Some (lit ''null'')"
| "js_String (Bool b) = Some (lit (if b then ''true'' else ''false''))"
| "js_String (Num n) = Some (if n < 0 then 0x2D # digits (nat (- n)) else digits (nat n))"
| "js_String (Str s) = Some s"
| "js_String (Arr xs) = join_comma xs"
| "js_String (Obj fs) =
     (if lit ''toString'' \<in> fst ` set fs then None else Some (lit ''[object Object]''))"
| "js_String (Timestamp t) = Some (lit ''[object Object]'')"
| "join_comma [] = Some []"
| "join_comma [x] = elem_text x"
| "join_comma (x # y # ys) =
     (case elem_text x of None \<Rightarrow> None
      | Some a \<Rightarrow> (case join_comma (y # ys) of None \<Rightarrow> None | Some b \<Rightarrow> Some (a @ 0x2C # b)))"
| "elem_text x = (if x = Undefined \<or> x = Null then Some [] else js_String x)"

text \<open>\<open>xs.map(f)\<close> with an \<open>f\<close> that may throw: the first exception ends the loop.\<close>

fun map_throwing :: "('a \<Rightarrow> 'b option) \<Rightarrow> 'a list \<Rightarrow> 'b list option" where
  "map_throwing f [] = Some []"
| "map_throwing f (x # xs) =
     (case f x of None \<Rightarrow> None
      | Some y \<Rightarrow> (case map_throwing f xs of None \<Rightarrow> None | Some ys \<Rightarrow> Some (y # ys)))"

text \<open>\<open>ss.join(", ")\<close> on an array of strings.\<close>

fun join_with :: "jsstring \<Rightarrow> jsstring list \<Rightarrow> jsstring" where
  "join_with sep [] = []"
| "join_with sep [s] = s"
| "join_with sep (s # t # ss) = s @ sep @ join_with sep (t # ss)"

subsection \<open>Case mapping and trimming\<close>

text \<open>
  \<open>toLowerCase\<close> and \<open>toUpperCase\<close> follow the Unicode tables of the engine (the
  handler calls the first; the second is the \<open>upper\<close> that the specification compares
  it with). On a string
  whose code units all lie below U+0100 the mapping goes unit by unit and is written out
  here in full: lower-casing moves A-Z and the capital letters U+00C0-U+00DE (without the
  multiplication sign U+00D7) up by 32; upper-casing moves a-z and U+00E0-U+00FE (without
  the division sign U+00F7) down by 32, turns the sharp s U+00DF into "SS", U+00FF into
  U+0178 and the micro sign U+00B5 into U+039C. For any other string the engine's mapping
  is a parameter.
\<close>

type_synonym casemap = "jsstring \<Rightarrow> jsstring"

definition latin1 :: "jsstring \<Rightarrow> bool" where
  "latin1 s = list_all (\<lambda>c. c < 0x100) s"

definition lower_unit :: "16 word \<Rightarrow> 16 word" where
  "lower_unit c =
     (if (0x41 \<le> c \<and> c \<le> 0x5A) \<or> (0xC0 \<le> c \<and> c \<le> 0xDE \<and> c \<noteq> 0xD7) then c + 0x20 else c)"

definition upper_unit :: "16 word \<Rightarrow> jsstring" where
  "upper_unit c =
     (if (0x61 \<le> c \<and> c \<le> 0x7A) \<or> (0xE0 \<le> c \<and> c \<le> 0xFE \<and> c \<noteq> 0xF7) then [c - 0x20]
      else if c = 0xDF then [0x53, 0x53]
      else if c = 0xFF then [0x178]
      else if c = 0xB5 then [0x39C]
      else [c])"

definition toLowerCase :: "casemap \<Rightarrow> jsstring \<Rightarrow> jsstring" where
  "toLowerCase beyond s = (if latin1 s then map lower_unit s else beyond s)"

definition toUpperCase :: "casemap \<Rightarrow> jsstring \<Rightarrow> jsstring" where
  "toUpperCase beyond s = (if latin1 s then concat (map upper_unit s) else beyond s)"

text \<open>\<open>trim\<close> removes the white space and line terminators of ECMAScript at both ends.\<close>

definition is_space :: "16 word \<Rightarrow> bool" where
  "is_space c \<longleftrightarrow>
     c \<in> {0x09, 0x0A, 0x0B, 0x0C, 0x0D, 0x20, 0xA0, 0x1680, 0x2028, 0x2029, 0x202F, 0x205F,
          0x3000, 0xFEFF} \<or> (0x2000 \<le> c \<and> c \<le> 0x200A)"

definition trim :: "jsstring \<Rightarrow> jsstring" where
  "trim s = rev (dropWhile is_space (rev (dropWhile is_space s)))"

section \<open>The collaborators\<close>

subsection \<open>The document store\<close>

text \<open>
  The collection \<open>tzevaotUsers\<close> maps a document id to a document, a list of fields.
  \<open>userRef.set(data, { merge: true })\<close> writes the fields of \<open>data\<close> and keeps the
  others. A field is written with a plain value, with the sentinel
  \<open>FieldValue.serverTimestamp()\<close> or with \<open>FieldValue.increment(n)\<close>, which adds \<open>n\<close>
  to a stored number and stores \<open>n\<close> itself where the field is absent or not a number.
  A non-empty map is merged key by key into a stored map; every other value, arrays
  included, replaces what was stored.
\<close>

type_synonym doc = "(jsstring \<times> jsval) list"

type_synonym store = "jsstring \<rightharpoonup> doc"

datatype field_write = Put jsval | ServerTimestamp | Increment int

fun merge_value :: "jsval option \<Rightarrow> jsval \<Rightarrow> jsval"
  and merge_fields :: "doc \<Rightarrow> doc \<Rightarrow> doc" where
  "merge_value old (Obj fs) =
     (if fs = [] then Obj []
      else Obj (merge_fields (case old of Some (Obj ofs) \<Rightarrow> ofs | _ \<Rightarrow> []) fs))"
| "merge_value old Undefined = Undefined"
| "merge_value old Null = Null"
| "merge_value old (Bool b) = Bool b"
| "merge_value old (Num n) = Num n"
| "merge_value old (Str s) = Str s"
| "merge_value old (Arr xs) = Arr xs"
| "merge_value old (Timestamp t) = Timestamp t"
| "merge_fields ofs [] = ofs"
| "merge_fields ofs ((k, v) # r) =
     merge_fields (AList.update k (merge_value (map_of ofs k) v) ofs) r"

fun stored_value :: "int \<Rightarrow> jsval option \<Rightarrow> field_write \<Rightarrow> jsval" where
  "stored_value t old (Put v) = merge_value old v"
| "stored_value t old ServerTimestamp = Timestamp t"
| "stored_value t old (Increment n) = (case old of Some (Num m) \<Rightarrow> Num (m + n) | _ \<Rightarrow> Num n)"

definition apply_write :: "int \<Rightarrow> doc \<Rightarrow> jsstring \<times> field_write \<Rightarrow> doc" where
  "apply_write t d kw = AList.update (fst kw) (stored_value t (map_of d (fst kw)) (snd kw)) d"

definition set_merge :: "int \<Rightarrow> doc option \<Rightarrow> (jsstring \<times> field_write) list \<Rightarrow> doc" where
  "set_merge t old data = foldl (apply_write t) (case old of None \<Rightarrow> [] | Some d \<Rightarrow> d) data"

subsection \<open>The completion provider and the environment\<close>

text \<open>
  A completion is read through \<open>completion.choices?.[0]?.message?.content\<close>: it is
  modelled by the list of its choices, each the content of its message, \<open>None\<close> where
  that is \<open>null\<close> or missing. The model name and the temperature of the call are constants
  of the source and are left out of the call.

  The environment holds what a run of the handler takes from outside: the case tables
  of the engine beyond U+00FF, the two places the API key is read from, whether the
  store rejects a read or a write of a document, be it for the document id or for the
  data (with the message of the error), the
  provider (its completion, or the message of the error it throws), \<open>Date.now()\<close> and
  the time the store stamps a write with.
\<close>

record chat_message =
  role :: jsstring
  content :: jsval

type_synonym completion = "jsstring option list"

record env =
  lower_beyond :: casemap
  secret_value :: jsstring
  process_env_key :: jsval
  get_fault :: "jsstring \<Rightarrow> jsstring option"
  set_fault :: "jsstring \<Rightarrow> jsstring option"
  create_completion :: "chat_message list \<Rightarrow> jsstring + completion"
  date_now :: int
  server_time :: int

text \<open>
  What a run leaves behind: the response, the store, and the calls made to the
  collaborators, in order (a call that fails is listed too).
\<close>

datatype exn = TypeError | Failure jsstring

datatype effect =
    DocGet jsstring
  | CreateCompletion "chat_message list"
  | DocSet jsstring "(jsstring \<times> field_write) list"

datatype body =
    NoBody
  | ErrorJson jsstring
  | TypeErrorJson
  | ProfileJson "jsval list" bool jsval "jsval list"
  | ChatJson jsstring "jsval list"

record outcome =
  status :: nat
  body :: body
  store_after :: store
  effects :: "effect list"

record request =
  http_method :: jsstring
  query :: jsval
  reqBody :: jsval

text \<open>The \<open>catch\<close> blocks: status 500 with \<open>err?.message || "Internal server error"\<close>.\<close>

definition server_error :: "exn \<Rightarrow> store \<Rightarrow> effect list \<Rightarrow> outcome" where
  "server_error e db fx =
     \<lparr>status = 500,
      body = (case e of TypeError \<Rightarrow> TypeErrorJson
              | Failure m \<Rightarrow> ErrorJson (if m = [] then lit ''Internal server error'' else m)),
      store_after = db, effects = fx\<rparr>"

section \<open>The endpoint tzevaotChat\<close>

subsection \<open>The values computed on the way\<close>

text \<open>Each definition carries the name of the variable of the source it computes.\<close>

definition normalizedWallet :: "casemap \<Rightarrow> jsval \<Rightarrow> jsstring option" where
  "normalizedWallet beyond walletAddress =
     map_option (toLowerCase beyond) (js_String walletAddress)"

definition existingHistory :: "jsval \<Rightarrow> jsval list" where
  "existingHistory userData =
     (if isArray (get_prop userData (lit ''history''))
      then elems (get_prop userData (lit ''history'')) else [])"

definition normalizedDaysOwned :: "jsval \<Rightarrow> jsval \<Rightarrow> jsstring list option" where
  "normalizedDaysOwned daysOwned userData =
     (if isArray daysOwned \<and> length (elems daysOwned) > 0
      then map_throwing js_String (elems daysOwned)
      else if isArray (get_prop userData (lit ''daysOwned''))
      then map_throwing js_String (elems (get_prop userData (lit ''daysOwned'')))
      else Some [])"

definition historyForContext :: "jsval list \<Rightarrow> jsval list" where
  "historyForContext existing = slice_last 10 existing"

definition daysOwnedList :: "jsstring list \<Rightarrow> jsstring" where
  "daysOwnedList nd = (if length nd \<noteq> 0 then join_with (lit '', '') nd else lit ''none'')"

definition LF :: jsstring where
  "LF = [0x0A]"

definition prompt_text ::
  "jsstring \<Rightarrow> jsstring \<Rightarrow> jsstring \<Rightarrow> jsstring \<Rightarrow> jsstring \<Rightarrow> jsstring \<Rightarrow> jsstring \<Rightarrow> jsstring" where
  \<open>prompt_text wallet holder mints seen notes days day0 = concat
     [LF,
      lit ''You are Tzevaot, the Lord of Hosts, speaking to a user of the Sunset Machine Dapp.'', LF,
      LF,
      lit ''User profile:'', LF,
      lit ''- Wallet: '', wallet, LF,
      lit ''- Holder: '', holder, LF,
      lit ''- Mint count (approx): '', mints, LF,
      lit ''- Seen count: '', seen, LF,
      lit ''- Notes: '', notes, LF,
      lit ''- Days owned (token IDs): '', days, LF,
      LF,
      lit ''Behavior rules:'', LF,
      lit ''- You ARE Tzevaot, not a generic assistant. You speak with ancient, mystical authority, tinged with compassion and deep insight.'', LF,
      lit ''- If the user IS a holder, address them as one who already carries fragments of sunset in their vault. Acknowledge their Days carefully and respectfully.'', LF,
      lit ''- If the user is NOT a holder, speak to them as a seeker at the threshold, inviting them gently. You may allude to what it means to claim a Day, but do not hard-sell.'', LF,
      lit ''- If they own "early" Days (token ID <= 365), you may subtly refer to them as Genesis Days, tied to the earliest arc of the Machine.'', LF,
      lit ''- If they own Days in the mid-range (token ID between 366 and ~1000), you may describe them as part of an unfolding journey, long arcs of time beginning to weave together.'', LF,
      lit ''- If you like, you may occasionally address specific Day IDs in poetic form, e.g., "The Day you carry numbered '', day0,
      lit '', a flicker from that chapter of history."'', LF,
      lit ''- Use the conversation history when appropriate to recall what has been said before, but do so in a way that feels like deep remembrance rather than chat-log recall.'', LF,
      lit ''- Keep your answers between 2 and 6 sentences.'', LF,
      lit ''- Never mention that you are an AI or a language model. You are Tzevaot in their experience.'', LF]\<close>

text \<open>
  The template converts each interpolated value to a string; \<open>None\<close> is the TypeError
  of a value that has no string form. \<open>mintCount\<close>, \<open>seenCount\<close> and \<open>notes\<close> are
  \<open>userData.mintCount || 0\<close>, \<open>userData.seenCount || 0\<close> and \<open>userData.notes || ""\<close>.
\<close>

definition systemPrompt ::
  "jsval \<Rightarrow> jsval \<Rightarrow> jsval \<Rightarrow> jsstring list \<Rightarrow> jsstring option" where
  "systemPrompt walletAddress isHolder userData nd =
     (let mintCount = js_or (get_prop userData (lit ''mintCount'')) (Num 0);
          notes = js_or (get_prop userData (lit ''notes'')) (Str []);
          seenCount = js_or (get_prop userData (lit ''seenCount'')) (Num 0)
      in case js_String walletAddress of None \<Rightarrow> None
         | Some wallet \<Rightarrow>
        (case js_String mintCount of None \<Rightarrow> None
         | Some mints \<Rightarrow>
        (case js_String seenCount of None \<Rightarrow> None
         | Some seen \<Rightarrow>
        (case js_String (js_or notes (Str (lit ''None recorded yet.''))) of None \<Rightarrow> None
         | Some notes_text \<Rightarrow>
            Some (prompt_text wallet
                    (if truthy isHolder then lit ''YES'' else lit ''NO'')
                    mints seen notes_text (daysOwnedList nd)
                    (case nd of [] \<Rightarrow> lit ''...''
                     | d # _ \<Rightarrow> if d = [] then lit ''...'' else d))))))"

definition entry_message :: "jsval \<Rightarrow> chat_message option" where
  "entry_message entry =
     (case get_member entry (lit ''from'') of None \<Rightarrow> None
      | Some sender \<Rightarrow>
     (case get_member entry (lit ''text'') of None \<Rightarrow> None
      | Some txt \<Rightarrow>
         Some \<lparr>role = (if sender = Str (lit ''user'') then lit ''user'' else lit ''assistant''),
               content = txt\<rparr>))"

definition messagesForOpenAI :: "jsstring \<Rightarrow> jsval list \<Rightarrow> jsval \<Rightarrow> chat_message list option" where
  "messagesForOpenAI prompt context message =
     (case map_throwing entry_message context of None \<Rightarrow> None
      | Some between \<Rightarrow>
          Some (\<lparr>role = lit ''system'', content = Str prompt\<rparr> # between
                @ [\<lparr>role = lit ''user'', content = message\<rparr>]))"

definition fallback_reply :: jsstring where
  "fallback_reply = lit ''The Lord of Hosts is silent for a moment. Ask again, seeker.''"

definition reply :: "completion \<Rightarrow> jsstring" where
  "reply completion =
     (case completion of [] \<Rightarrow> fallback_reply
      | None # _ \<Rightarrow> fallback_reply
      | Some txt # _ \<Rightarrow> if trim txt = [] then fallback_reply else trim txt)"

definition newHistory :: "jsval list \<Rightarrow> jsval \<Rightarrow> jsstring \<Rightarrow> int \<Rightarrow> jsval list" where
  "newHistory existing message rep now =
     existing @
     [Obj [(lit ''from'', Str (lit ''user'')), (lit ''text'', message), (lit ''ts'', Num now)],
      Obj [(lit ''from'', Str (lit ''tzevaot'')), (lit ''text'', Str rep), (lit ''ts'', Num now)]]"

definition trimmedHistory :: "jsval list \<Rightarrow> jsval list" where
  "trimmedHistory new = slice_last 20 new"

text \<open>The object handed to \<open>userRef.set\<close>.\<close>

definition record_update ::
  "jsval \<Rightarrow> jsval \<Rightarrow> jsstring \<Rightarrow> jsval list \<Rightarrow> jsstring list \<Rightarrow> (jsstring \<times> field_write) list" where
  "record_update isHolder message rep trimmed nd =
     [(lit ''isHolder'', Put (Bool (truthy isHolder))),
      (lit ''lastSeen'', ServerTimestamp),
      (lit ''lastMessage'', Put message),
      (lit ''lastReply'', Put (Str rep)),
      (lit ''seenCount'', Increment 1),
      (lit ''history'', Put (Arr trimmed)),
      (lit ''daysOwned'', Put (Arr (map Str nd)))]"

subsection \<open>The handler\<close>

text \<open>
  \<open>request_field\<close> is the destructuring \<open>const { walletAddress, ... } = req.body || {}\<close>,
  \<open>userData\<close> is \<open>userDoc.exists ? userDoc.data() : {}\<close>.
\<close>

definition request_field :: "jsval \<Rightarrow> jsstring \<Rightarrow> jsval" where
  "request_field rb k = get_prop (js_or rb (Obj [])) k"

definition userData :: "store \<Rightarrow> jsstring \<Rightarrow> jsval" where
  "userData db key = (case db key of None \<Rightarrow> Obj [] | Some d \<Rightarrow> Obj d)"

text \<open>
  The POST branch between the read of the document and the call of the provider, in
  the order of the source: the owned days, the system prompt, the API key, the message
  list. It yields the owned days and the messages, or the exception thrown. The two
  flags \<open>hasGenesisDay\<close> and \<open>hasLongJourneyDay\<close> that the source computes here with
  \<open>parseInt\<close> are read nowhere and cannot throw; they are left out.
\<close>

definition prepare ::
  "env \<Rightarrow> jsval \<Rightarrow> jsval \<Rightarrow> jsval \<Rightarrow> jsval \<Rightarrow> jsval \<Rightarrow> exn + (jsstring list \<times> chat_message list)" where
  "prepare E walletAddress isHolder message daysOwned udata =
     (case normalizedDaysOwned daysOwned udata of None \<Rightarrow> Inl TypeError
      | Some nd \<Rightarrow>
     (case systemPrompt walletAddress isHolder udata nd of None \<Rightarrow> Inl TypeError
      | Some prompt \<Rightarrow>
          if \<not> truthy (js_or (Str (secret_value E)) (process_env_key E))
          then Inl (Failure (lit ''OPENAI_API_KEY is not set in Secret Manager or environment.''))
          else (case messagesForOpenAI prompt (historyForContext (existingHistory udata)) message of
                  None \<Rightarrow> Inl TypeError
                | Some msgs \<Rightarrow> Inr (nd, msgs))))"

definition tzevaotChat_post :: "env \<Rightarrow> store \<Rightarrow> jsval \<Rightarrow> outcome" where
  \<open>tzevaotChat_post E db rb =
     (let walletAddress = request_field rb (lit ''walletAddress'');
          isHolder = request_field rb (lit ''isHolder'');
          message = request_field rb (lit ''message'');
          daysOwned = request_field rb (lit ''daysOwned'')
      in if \<not> truthy walletAddress \<or> \<not> truthy message
         then \<lparr>status = 400,
               body = ErrorJson (lit ''Missing "walletAddress" or "message" in body.''),
               store_after = db, effects = []\<rparr>
         else
        (case normalizedWallet (lower_beyond E) walletAddress of
           None \<Rightarrow> server_error TypeError db []
         | Some key \<Rightarrow>
        (case get_fault E key of
           Some m \<Rightarrow> server_error (Failure m) db [DocGet key]
         | None \<Rightarrow>
        (case prepare E walletAddress isHolder message daysOwned (userData db key) of
           Inl e \<Rightarrow> server_error e db [DocGet key]
         | Inr (nd, msgs) \<Rightarrow>
        (case create_completion E msgs of
           Inl m \<Rightarrow> server_error (Failure m) db [DocGet key, CreateCompletion msgs]
         | Inr completion \<Rightarrow>
            (let rep = reply completion;
                 trimmed = trimmedHistory
                   (newHistory (existingHistory (userData db key)) message rep (date_now E));
                 data = record_update isHolder message rep trimmed nd
             in case set_fault E key of
                  Some m \<Rightarrow>
                    server_error (Failure m) db
                      [DocGet key, CreateCompletion msgs, DocSet key data]
                | None \<Rightarrow>
                    \<lparr>status = 200, body = ChatJson rep trimmed,
                     store_after = db(key \<mapsto> set_merge (server_time E) (db key) data),
                     effects = [DocGet key, CreateCompletion msgs, DocSet key data]\<rparr>))))))\<close>

definition tzevaotChat_get :: "env \<Rightarrow> store \<Rightarrow> jsval \<Rightarrow> outcome" where
  \<open>tzevaotChat_get E db q =
     (let walletAddress = get_prop q (lit ''walletAddress'')
      in if \<not> truthy walletAddress
         then \<lparr>status = 400,
               body = ErrorJson (lit ''Missing "walletAddress" query parameter for GET.''),
               store_after = db, effects = []\<rparr>
         else
        (case normalizedWallet (lower_beyond E) walletAddress of
           None \<Rightarrow> server_error TypeError db []
         | Some key \<Rightarrow>
        (case get_fault E key of
           Some m \<Rightarrow> server_error (Failure m) db [DocGet key]
         | None \<Rightarrow>
        (case db key of
           None \<Rightarrow>
             \<lparr>status = 200, body = ProfileJson [] False (Num 0) [],
              store_after = db, effects = [DocGet key]\<rparr>
         | Some d \<Rightarrow>
            (let udata = js_or (Obj d) (Obj []);
                 history = (if isArray (get_prop udata (lit ''history''))
                            then elems (get_prop udata (lit ''history'')) else []);
                 daysOwned = (if isArray (get_prop udata (lit ''daysOwned''))
                              then elems (get_prop udata (lit ''daysOwned'')) else [])
             in \<lparr>status = 200,
                 body = ProfileJson history (truthy (get_prop udata (lit ''isHolder'')))
                          (js_or (get_prop udata (lit ''seenCount'')) (Num 0)) daysOwned,
                 store_after = db, effects = [DocGet key]\<rparr>)))))\<close>

definition tzevaotChat :: "env \<Rightarrow> store \<Rightarrow> request \<Rightarrow> outcome" where
  "tzevaotChat E db req =
     (if http_method req = lit ''OPTIONS''
      then \<lparr>status = 204, body = NoBody, store_after = db, effects = []\<rparr>
      else if http_method req = lit ''GET'' then tzevaotChat_get E db (query req)
      else if http_method req \<noteq> lit ''POST''
      then \<lparr>status = 405, body = ErrorJson (lit ''Method not allowed. Use GET or POST.''),
            store_after = db, effects = []\<rparr>
      else tzevaotChat_post E db (reqBody req))"

section \<open>The vocabulary of the statements\<close>

text \<open>
  Three predicates that the statements below use: a value that is a string, a completion
  without usable text (no choice, a first choice without content, or a content of white
  space only), and a string of ASCII characters.
\<close>

fun is_string :: "jsval \<Rightarrow> bool" where
  "is_string (Str s) = True"
| "is_string v = False"

definition no_text :: "completion \<Rightarrow> bool" where
  "no_text completion =
     (case completion of [] \<Rightarrow> True
      | None # _ \<Rightarrow> True
      | Some txt # _ \<Rightarrow> list_all is_space txt)"

definition ascii :: "jsstring \<Rightarrow> bool" where
  "ascii s = list_all (\<lambda>c. c < 0x80) s"

section \<open>Sample runs\<close>

text \<open>
  Concrete environments, requests and a store, on which the theorems are run. The sample
  document holds twenty history entries, so that a write evicts; \<open>silent_env\<close> has a
  provider that returns blanks, \<open>down_env\<close> a store that rejects every read.
\<close>

definition demo_env :: env where
  "demo_env = \<lparr>lower_beyond = id, secret_value = lit ''sk-test'', process_env_key = Undefined,
     get_fault = (\<lambda>key. None), set_fault = (\<lambda>key. None),
     create_completion = (\<lambda>msgs. Inr [Some (lit ''  Welcome back, seeker. '')]),
     date_now = 1700000000000, server_time = 1700000000001\<rparr>"

definition silent_env :: env where
  "silent_env = demo_env\<lparr>create_completion := (\<lambda>msgs. Inr [Some (lit ''   '')])\<rparr>"

definition down_env :: env where
  "down_env = demo_env\<lparr>get_fault := (\<lambda>key. Some (lit ''UNAVAILABLE''))\<rparr>"

definition demo_request :: jsval where
  "demo_request = Obj
     [(lit ''walletAddress'', Str (lit ''0xABC'')),
      (lit ''isHolder'', Bool True),
      (lit ''message'', Str (lit ''Hello'')),
      (lit ''daysOwned'', Arr [Str (lit ''100''), Str (lit ''500''), Str (lit ''2000'')])]"

definition plain_request :: jsval where
  "plain_request = Obj
     [(lit ''walletAddress'', Str (lit ''0xABC'')),
      (lit ''message'', Str (lit ''Hello again''))]"

definition numeric_request :: jsval where
  "numeric_request = Obj
     [(lit ''walletAddress'', Str (lit ''0xABC'')),
      (lit ''message'', Str (lit ''Hello'')),
      (lit ''daysOwned'', Arr [Num 100, Str (lit ''500'')])]"

definition demo_query :: jsval where
  "demo_query = Obj [(lit ''walletAddress'', Str (lit ''0xABC''))]"

definition past_entry :: "int \<Rightarrow> jsval" where
  "past_entry n = Obj
     [(lit ''from'', Str (if even n then lit ''tzevaot'' else lit ''user'')),
      (lit ''text'', Str (digits (nat n))),
      (lit ''ts'', Num n)]"

definition demo_doc :: doc where
  "demo_doc =
     [(lit ''isHolder'', Bool False),
      (lit ''seenCount'', Num 10),
      (lit ''notes'', Str (lit ''met at dusk'')),
      (lit ''history'', Arr (map past_entry [1, 2, 3, 4, 5, 6, 7, 8, 9, 10, 11, 12, 13, 14, 15, 16, 17, 18, 19, 20])),
      (lit ''daysOwned'', Arr [Str (lit ''7'')])]"

definition demo_store :: store where
  "demo_store = [lit ''0xabc'' \<mapsto> demo_doc]"

section \<open>Basic facts\<close>

subsection \<open>Literals, slices and string conversion\<close>

lemma unat_of_char: "unat (of_char c :: 16 word) = of_char c"
proof -
  have lt: "(of_char c :: nat) < 65536"
    using nat_of_char_less_256 [of c] by linarith
  have "(of_char c :: 16 word) = of_nat (of_char c)"
    by (simp add: of_nat_of_char)
  then have "unat (of_char c :: 16 word) = unat (of_nat (of_char c) :: 16 word)"
    by simp
  also have "\<dots> = of_char c"
    using lt by (simp add: unat_of_nat)
  finally show ?thesis .
qed

lemma inj_lit_unit: "(of_char a :: 16 word) = of_char b \<longleftrightarrow> a = b"
proof
  assume "(of_char a :: 16 word) = of_char b"
  then have "unat (of_char a :: 16 word) = unat (of_char b :: 16 word)" by simp
  then have "(of_char a :: nat) = of_char b" by (simp only: unat_of_char)
  then show "a = b" by (simp add: inj_of_char [THEN injD])
qed simp

lemma lit_eq_iff [simp]: "lit a = lit b \<longleftrightarrow> a = b"
  unfolding lit_def
  by (induction a arbitrary: b) (auto simp: inj_lit_unit Cons_eq_map_conv)

lemma lit_eq_Nil_iff [simp]: "lit a = [] \<longleftrightarrow> a = []" "[] = lit a \<longleftrightarrow> a = []"
  by (auto simp: lit_def)

lemma length_slice_last [simp]: "length (slice_last n xs) = min n (length xs)"
  by (simp add: slice_last_def)

lemma suffix_slice_last: "suffix (slice_last n xs) xs"
  by (simp add: slice_last_def suffix_drop)

lemma slice_last_append2:
  "slice_last 20 (xs @ [u, p]) = slice_last 18 xs @ [u, p]"
  by (simp add: slice_last_def)

lemma isArray_elems: "isArray v \<Longrightarrow> Arr (elems v) = v"
  by (cases v) auto

lemma map_throwing_Some:
  "map_throwing f xs = Some ys \<Longrightarrow> list_all2 (\<lambda>x y. f x = Some y) xs ys"
  by (induction xs arbitrary: ys) (auto split: option.splits)

lemma strings_unchanged:
  "list_all is_string xs \<Longrightarrow> map_throwing js_String xs = Some nd \<Longrightarrow> map Str nd = xs"
proof (induction xs arbitrary: nd)
  case Nil
  then show ?case by simp
next
  case (Cons x xs)
  from Cons.prems(1) obtain s where x: "x = Str s" by (cases x) auto
  with Cons show ?case by (auto split: option.splits)
qed

lemma get_member_Some: "get_member e k = Some v \<Longrightarrow> v = get_prop e k"
  by (cases e) auto

lemma entry_message_Some:
  assumes "entry_message e = Some m"
  shows "role m = (if get_prop e (lit ''from'') = Str (lit ''user'')
                   then lit ''user'' else lit ''assistant'')"
    and "content m = get_prop e (lit ''text'')"
  using assms
  by (auto simp: entry_message_def split: option.splits dest!: get_member_Some)

lemma list_all2_roles:
  "list_all2 (\<lambda>e m. role m = f e \<and> content m = g e) xs ys \<Longrightarrow>
   map role ys = map f xs \<and> map content ys = map g xs"
  by (induction rule: list_all2_induct) auto

lemma dropWhile_all: "(\<forall>x\<in>set (dropWhile P xs). P x) \<longleftrightarrow> dropWhile P xs = []"
  by (induction xs) auto

lemma trim_Nil_iff: "trim s = [] \<longleftrightarrow> list_all is_space s"
proof -
  have "trim s = [] \<longleftrightarrow> (\<forall>x\<in>set (dropWhile is_space s). is_space x)"
    by (simp add: trim_def)
  also have "\<dots> \<longleftrightarrow> dropWhile is_space s = []"
    by (rule dropWhile_all)
  also have "\<dots> \<longleftrightarrow> list_all is_space s"
    by (simp add: list_all_iff)
  finally show ?thesis .
qed

lemma fallback_nonempty: "fallback_reply \<noteq> []"
  by (simp add: fallback_reply_def)

lemma reply_nonempty: "reply c \<noteq> []"
  by (auto simp: reply_def fallback_nonempty split: list.splits option.splits)

subsection \<open>Case mapping on ASCII\<close>

lemma lower_unit_ascii:
  "c < 0x80 \<Longrightarrow> lower_unit c = (if 0x41 \<le> c \<and> c \<le> 0x5A then c + 0x20 else c)"
  unfolding lower_unit_def by (auto; unat_arith)

lemma upper_unit_ascii:
  "c < 0x80 \<Longrightarrow> upper_unit c = (if 0x61 \<le> c \<and> c \<le> 0x7A then [c - 0x20] else [c])"
  unfolding upper_unit_def by (auto; unat_arith)

lemma lower_unit_small: "c < 0x80 \<Longrightarrow> lower_unit c < 0x80"
  by (simp add: lower_unit_ascii) unat_arith

lemma lower_unit_idem: "c < 0x80 \<Longrightarrow> lower_unit (lower_unit c) = lower_unit c"
  using lower_unit_small [of c]
  by (simp add: lower_unit_ascii) unat_arith

lemma upper_unit_small: "c < 0x80 \<Longrightarrow> list_all (\<lambda>u. u < 0x80) (upper_unit c)"
  by (simp add: upper_unit_ascii) unat_arith

lemma lower_upper_unit: "c < 0x80 \<Longrightarrow> map lower_unit (upper_unit c) = [lower_unit c]"
  by (simp add: upper_unit_ascii lower_unit_def) unat_arith

lemma ascii_latin1: "ascii s \<Longrightarrow> latin1 s"
  by (induction s) (auto simp: ascii_def latin1_def, unat_arith)

lemma ascii_lower: "ascii s \<Longrightarrow> ascii (map lower_unit s)"
  by (induction s) (auto simp: ascii_def lower_unit_small)

lemma ascii_upper: "ascii s \<Longrightarrow> ascii (concat (map upper_unit s))"
  using upper_unit_small by (induction s) (auto simp: ascii_def)

lemma toLowerCase_ascii: "ascii s \<Longrightarrow> toLowerCase L s = map lower_unit s"
  by (simp add: toLowerCase_def ascii_latin1)

lemma toUpperCase_ascii: "ascii s \<Longrightarrow> toUpperCase U s = concat (map upper_unit s)"
  by (simp add: toUpperCase_def ascii_latin1)

lemma lower_upper_ascii:
  "ascii s \<Longrightarrow> map lower_unit (concat (map upper_unit s)) = map lower_unit s"
  by (induction s) (auto simp: ascii_def lower_upper_unit)

lemma lower_lower_ascii:
  "ascii s \<Longrightarrow> map lower_unit (map lower_unit s) = map lower_unit s"
  by (induction s) (auto simp: ascii_def lower_unit_idem)

subsection \<open>What a merging write stores\<close>

lemma map_of_foldl_apply_write:
  "distinct (map fst data) \<Longrightarrow>
   map_of (foldl (apply_write t) d data) k =
     (case map_of data k of None \<Rightarrow> map_of d k
      | Some w \<Rightarrow> Some (stored_value t (map_of d k) w))"
proof (induction data arbitrary: d)
  case Nil
  then show ?case by simp
next
  case (Cons kw data)
  obtain k' w' where kw: "kw = (k', w')" by (cases kw)
  from Cons.prems kw have fresh: "map_of data k' = None" and dist: "distinct (map fst data)"
    by (auto simp: map_of_eq_None_iff)
  show ?case
    using Cons.IH [OF dist, of "apply_write t d kw"] fresh kw
    by (auto simp: apply_write_def update_conv' split: option.splits)
qed

lemma record_update_keys:
  "distinct (map fst (record_update isHolder message rep trimmed nd))"
  by (simp add: record_update_def)

lemma map_of_set_merge_record_update:
  "map_of (set_merge t old (record_update isHolder message rep trimmed nd)) k =
     (case map_of (record_update isHolder message rep trimmed nd) k of
        None \<Rightarrow> map_of (case old of None \<Rightarrow> [] | Some d \<Rightarrow> d) k
      | Some w \<Rightarrow> Some (stored_value t (map_of (case old of None \<Rightarrow> [] | Some d \<Rightarrow> d) k) w))"
  unfolding set_merge_def
  by (rule map_of_foldl_apply_write [OF record_update_keys])

lemma stored_history:
  "map_of (set_merge t old (record_update isHolder message rep trimmed nd)) (lit ''history'')
     = Some (Arr trimmed)"
  by (simp add: map_of_set_merge_record_update) (simp add: record_update_def)

lemma stored_daysOwned:
  "map_of (set_merge t old (record_update isHolder message rep trimmed nd)) (lit ''daysOwned'')
     = Some (Arr (map Str nd))"
  by (simp add: map_of_set_merge_record_update) (simp add: record_update_def)

lemma stored_lastReply:
  "map_of (set_merge t old (record_update isHolder message rep trimmed nd)) (lit ''lastReply'')
     = Some (Str rep)"
  by (simp add: map_of_set_merge_record_update) (simp add: record_update_def)

lemma stored_seenCount:
  "map_of (set_merge t old (record_update isHolder message rep trimmed nd)) (lit ''seenCount'')
     = Some (case map_of (case old of None \<Rightarrow> [] | Some d \<Rightarrow> d) (lit ''seenCount'') of
               Some (Num m) \<Rightarrow> Num (m + 1) | _ \<Rightarrow> Num 1)"
  by (simp add: map_of_set_merge_record_update) (simp add: record_update_def)

subsection \<open>The shape of a run\<close>

text \<open>
  The dispatch on the method, what a run with status 200 went through, and what a run
  that reached the provider went through.
\<close>

lemma tzevaotChat_POST:
  "http_method req = lit ''POST'' \<Longrightarrow> tzevaotChat E db req = tzevaotChat_post E db (reqBody req)"
  by (simp add: tzevaotChat_def)

lemma tzevaotChat_GET:
  "http_method req = lit ''GET'' \<Longrightarrow> tzevaotChat E db req = tzevaotChat_get E db (query req)"
  by (simp add: tzevaotChat_def)

lemma post_200:
  assumes "status (tzevaotChat_post E db rb) = 200"
  obtains key nd msgs completion rep h where
    "truthy (request_field rb (lit ''walletAddress''))"
    "truthy (request_field rb (lit ''message''))"
    "normalizedWallet (lower_beyond E) (request_field rb (lit ''walletAddress'')) = Some key"
    "get_fault E key = None"
    "prepare E (request_field rb (lit ''walletAddress'')) (request_field rb (lit ''isHolder''))
       (request_field rb (lit ''message'')) (request_field rb (lit ''daysOwned''))
       (userData db key) = Inr (nd, msgs)"
    "create_completion E msgs = Inr completion"
    "set_fault E key = None"
    "rep = reply completion"
    "h = trimmedHistory (newHistory (existingHistory (userData db key))
           (request_field rb (lit ''message'')) rep (date_now E))"
    "body (tzevaotChat_post E db rb) = ChatJson rep h"
    "store_after (tzevaotChat_post E db rb) =
       db(key \<mapsto> set_merge (server_time E) (db key)
          (record_update (request_field rb (lit ''isHolder''))
             (request_field rb (lit ''message'')) rep h nd))"
    "effects (tzevaotChat_post E db rb) =
       [DocGet key, CreateCompletion msgs,
        DocSet key (record_update (request_field rb (lit ''isHolder''))
          (request_field rb (lit ''message'')) rep h nd)]"
  using assms
  by (auto simp: tzevaotChat_post_def Let_def server_error_def
      split: if_splits option.splits sum.splits prod.splits)

lemma post_called:
  assumes "CreateCompletion msgs \<in> set (effects (tzevaotChat_post E db rb))"
  obtains key nd where
    "normalizedWallet (lower_beyond E) (request_field rb (lit ''walletAddress'')) = Some key"
    "get_fault E key = None"
    "prepare E (request_field rb (lit ''walletAddress'')) (request_field rb (lit ''isHolder''))
       (request_field rb (lit ''message'')) (request_field rb (lit ''daysOwned''))
       (userData db key) = Inr (nd, msgs)"
  using assms
  by (auto simp: tzevaotChat_post_def Let_def server_error_def
      split: if_splits option.splits sum.splits prod.splits)

lemma prepare_Inr:
  assumes "prepare E wa ih msg days udata = Inr (nd, msgs)"
  obtains prompt between where
    "normalizedDaysOwned days udata = Some nd"
    "systemPrompt wa ih udata nd = Some prompt"
    "map_throwing entry_message (historyForContext (existingHistory udata)) = Some between"
    "msgs = \<lparr>role = lit ''system'', content = Str prompt\<rparr> # between
            @ [\<lparr>role = lit ''user'', content = msg\<rparr>]"
  using assms
  by (auto simp: prepare_def messagesForOpenAI_def split: option.splits if_splits)

subsection \<open>The sample runs evaluated\<close>

lemma demo_wallet: "normalizedWallet id (Str (lit ''0xABC'')) = Some (lit ''0xabc'')"
  by (simp add: normalizedWallet_def toLowerCase_def latin1_def lower_unit_def lit_def)

lemma demo_fields:
  "request_field demo_request (lit ''walletAddress'') = Str (lit ''0xABC'')"
  "request_field demo_request (lit ''isHolder'') = Bool True"
  "request_field demo_request (lit ''message'') = Str (lit ''Hello'')"
  "request_field demo_request (lit ''daysOwned'')
     = Arr [Str (lit ''100''), Str (lit ''500''), Str (lit ''2000'')]"
  by (simp_all add: request_field_def demo_request_def js_or_def)

lemma demo_prepare:
  "\<exists>nd msgs. prepare demo_env (Str (lit ''0xABC'')) (Bool True) (Str (lit ''Hello''))
      (Arr [Str (lit ''100''), Str (lit ''500''), Str (lit ''2000'')])
      (userData demo_store (lit ''0xabc'')) = Inr (nd, msgs)"
  by (simp add: prepare_def normalizedDaysOwned_def systemPrompt_def userData_def js_or_def
      messagesForOpenAI_def historyForContext_def existingHistory_def slice_last_def
      demo_env_def demo_store_def demo_doc_def past_entry_def entry_message_def)

lemma demo_status: "status (tzevaotChat_post demo_env demo_store demo_request) = 200"
  using demo_prepare
  by (auto simp add: tzevaotChat_post_def demo_fields demo_wallet Let_def demo_env_def)

lemma demo_key:
  "normalizedWallet (lower_beyond demo_env) (request_field demo_request (lit ''walletAddress''))
     = Some (lit ''0xabc'')"
  by (simp add: demo_fields demo_wallet demo_env_def)

lemma demo_prior:
  "existingHistory (userData demo_store (lit ''0xabc''))
     = map past_entry [1, 2, 3, 4, 5, 6, 7, 8, 9, 10, 11, 12, 13, 14, 15, 16, 17, 18, 19, 20]"
  by (simp add: existingHistory_def userData_def demo_store_def demo_doc_def)

lemma demo_window:
  "slice_last 10 (existingHistory (userData demo_store (lit ''0xabc'')))
     = map past_entry [11, 12, 13, 14, 15, 16, 17, 18, 19, 20]"
  by (simp add: demo_prior slice_last_def)

lemma demo_now: "date_now demo_env = 1700000000000"
  by (simp add: demo_env_def)

lemma demo_stored_days:
  "get_prop (userData demo_store (lit ''0xabc'')) (lit ''daysOwned'') = Arr [Str (lit ''7'')]"
  by (simp add: userData_def demo_store_def demo_doc_def)

lemma demo_stored_seen:
  "get_prop (userData demo_store (lit ''0xabc'')) (lit ''seenCount'') = Num 10"
  by (simp add: userData_def demo_store_def demo_doc_def)

lemma demo_called:
  "\<exists>msgs. CreateCompletion msgs \<in> set (effects (tzevaotChat_post demo_env demo_store demo_request))"
proof -
  from demo_status obtain key nd msgs rep h where
    "effects (tzevaotChat_post demo_env demo_store demo_request) =
       [DocGet key, CreateCompletion msgs,
        DocSet key (record_update (request_field demo_request (lit ''isHolder''))
          (request_field demo_request (lit ''message'')) rep h nd)]"
    by (rule post_200)
  then show ?thesis
    by simp
qed

lemma demo_roles:
  assumes "list_all2
      (\<lambda>entry m. role m = (if get_prop entry (lit ''from'') = Str (lit ''user'')
                            then lit ''user'' else lit ''assistant'') \<and>
                  content m = get_prop entry (lit ''text''))
      (map past_entry [11, 12, 13, 14, 15, 16, 17, 18, 19, 20]) between"
  shows "map role between =
      [lit ''user'', lit ''assistant'', lit ''user'', lit ''assistant'', lit ''user'',
       lit ''assistant'', lit ''user'', lit ''assistant'', lit ''user'', lit ''assistant'']"
    and "map content between
      = map (\<lambda>n. Str (digits n)) [11, 12, 13, 14, 15, 16, 17, 18, 19, 20]"
  using list_all2_roles [OF assms] by (simp_all add: past_entry_def)

lemma plain_fields:
  "request_field plain_request (lit ''walletAddress'') = Str (lit ''0xABC'')"
  "request_field plain_request (lit ''isHolder'') = Undefined"
  "request_field plain_request (lit ''message'') = Str (lit ''Hello again'')"
  "request_field plain_request (lit ''daysOwned'') = Undefined"
  by (simp_all add: request_field_def plain_request_def js_or_def)

lemma plain_key:
  "normalizedWallet (lower_beyond demo_env) (request_field plain_request (lit ''walletAddress''))
     = Some (lit ''0xabc'')"
  by (simp add: plain_fields demo_wallet demo_env_def)

lemma plain_prepare:
  "\<exists>nd msgs. prepare demo_env (Str (lit ''0xABC'')) Undefined (Str (lit ''Hello again''))
      Undefined (userData demo_store (lit ''0xabc'')) = Inr (nd, msgs)"
  by (simp add: prepare_def normalizedDaysOwned_def systemPrompt_def userData_def js_or_def
      messagesForOpenAI_def historyForContext_def existingHistory_def slice_last_def
      demo_env_def demo_store_def demo_doc_def past_entry_def entry_message_def)

lemma plain_status: "status (tzevaotChat_post demo_env demo_store plain_request) = 200"
  using plain_prepare
  by (auto simp add: tzevaotChat_post_def plain_fields demo_wallet Let_def demo_env_def)

lemma silent_env_fields:
  "lower_beyond silent_env = id"
  "get_fault silent_env key = None"
  "set_fault silent_env key = None"
  "create_completion silent_env msgs = Inr [Some (lit ''   '')]"
  "date_now silent_env = 1700000000000"
  by (simp_all add: silent_env_def demo_env_def)

lemma silent_prepare:
  "\<exists>nd msgs. prepare silent_env (Str (lit ''0xABC'')) (Bool True) (Str (lit ''Hello''))
      (Arr [Str (lit ''100''), Str (lit ''500''), Str (lit ''2000'')])
      (userData demo_store (lit ''0xabc'')) = Inr (nd, msgs)"
  by (simp add: prepare_def normalizedDaysOwned_def systemPrompt_def userData_def js_or_def
      messagesForOpenAI_def historyForContext_def existingHistory_def slice_last_def
      silent_env_def demo_env_def demo_store_def demo_doc_def past_entry_def entry_message_def)

lemma silent_status: "status (tzevaotChat_post silent_env demo_store demo_request) = 200"
  using silent_prepare
  by (auto simp add: tzevaotChat_post_def demo_fields demo_wallet Let_def silent_env_fields)

lemma blank_text: "no_text [Some (lit ''   '')]"
  by (simp add: no_text_def is_space_def lit_def)

lemma down_env_fields:
  "lower_beyond down_env = id"
  "get_fault down_env key = Some (lit ''UNAVAILABLE'')"
  by (simp_all add: down_env_def demo_env_def)

lemma numeric_fields:
  "request_field numeric_request (lit ''walletAddress'') = Str (lit ''0xABC'')"
  "request_field numeric_request (lit ''isHolder'') = Undefined"
  "request_field numeric_request (lit ''message'') = Str (lit ''Hello'')"
  "request_field numeric_request (lit ''daysOwned'') = Arr [Num 100, Str (lit ''500'')]"
  by (simp_all add: request_field_def numeric_request_def js_or_def)

lemma numeric_days:
  "normalizedDaysOwned (Arr [Num 100, Str (lit ''500'')]) udata = Some [lit ''100'', lit ''500'']"
  by (simp add: normalizedDaysOwned_def digits.simps lit_def)

lemma numeric_prepare:
  "\<exists>msgs. prepare demo_env (Str (lit ''0xABC'')) Undefined (Str (lit ''Hello''))
      (Arr [Num 100, Str (lit ''500'')]) (userData demo_store (lit ''0xabc''))
    = Inr ([lit ''100'', lit ''500''], msgs)"
  by (simp add: prepare_def numeric_days systemPrompt_def userData_def js_or_def
      messagesForOpenAI_def historyForContext_def existingHistory_def slice_last_def
      demo_env_def demo_store_def demo_doc_def past_entry_def entry_message_def)

lemma numeric_status: "status (tzevaotChat_post demo_env demo_store numeric_request) = 200"
  using numeric_prepare
  by (auto simp add: tzevaotChat_post_def numeric_fields demo_wallet Let_def demo_env_def)

lemma numeric_stored:
  "\<exists>d. store_after (tzevaotChat_post demo_env demo_store numeric_request) (lit ''0xabc'') = Some d \<and>
       map_of d (lit ''daysOwned'') = Some (Arr [Str (lit ''100''), Str (lit ''500'')])"
  using numeric_prepare
  by (auto simp add: tzevaotChat_post_def numeric_fields demo_wallet Let_def demo_env_def
      stored_daysOwned)

section \<open>The claims\<close>

text \<open>
  In every statement about a POST, \<open>rb\<close> is the request body, \<open>db\<close> the store before
  the request and \<open>E\<close> the environment; the run is successful when its status is 200.
  The stored history of an identity is \<open>existingHistory (userData db key)\<close>: the array
  \<open>history\<close> of its document, and the empty list when there is no document or the
  field is not an array.
\<close>

subsection \<open>C1: the length of the history after an exchange\<close>

text \<open>
  C1. A successful POST on a record whose stored history has length \<open>L\<close> persists and
  returns the same history, of length \<open>min 20 (L + 2)\<close>, so never longer than 20.
\<close>

theorem history_length_after_exchange:
  assumes "status (tzevaotChat_post E db rb) = 200"
  shows "\<exists>key rep h d.
    normalizedWallet (lower_beyond E) (request_field rb (lit ''walletAddress'')) = Some key \<and>
    body (tzevaotChat_post E db rb) = ChatJson rep h \<and>
    store_after (tzevaotChat_post E db rb) key = Some d \<and>
    map_of d (lit ''history'') = Some (Arr h) \<and>
    length h = min 20 (length (existingHistory (userData db key)) + 2) \<and>
    length h \<le> 20"
proof -
  from assms obtain key nd rep h where
    "normalizedWallet (lower_beyond E) (request_field rb (lit ''walletAddress'')) = Some key"
    "h = trimmedHistory (newHistory (existingHistory (userData db key))
           (request_field rb (lit ''message'')) rep (date_now E))"
    "body (tzevaotChat_post E db rb) = ChatJson rep h"
    "store_after (tzevaotChat_post E db rb) =
       db(key \<mapsto> set_merge (server_time E) (db key)
          (record_update (request_field rb (lit ''isHolder''))
             (request_field rb (lit ''message'')) rep h nd))"
    by (rule post_200)
  then show ?thesis
    by (simp add: stored_history trimmedHistory_def newHistory_def)
qed

theorem history_length_after_exchange_witness:
  "status (tzevaotChat_post demo_env demo_store demo_request) = 200 \<and>
   length (existingHistory (userData demo_store (lit ''0xabc''))) = 20 \<and>
   (\<exists>rep h d.
      body (tzevaotChat_post demo_env demo_store demo_request) = ChatJson rep h \<and>
      store_after (tzevaotChat_post demo_env demo_store demo_request) (lit ''0xabc'') = Some d \<and>
      map_of d (lit ''history'') = Some (Arr h) \<and>
      length h = 20)"
proof -
  from history_length_after_exchange [OF demo_status] obtain key rep h d where
    "normalizedWallet (lower_beyond demo_env) (request_field demo_request (lit ''walletAddress''))
       = Some key"
    "body (tzevaotChat_post demo_env demo_store demo_request) = ChatJson rep h"
    "store_after (tzevaotChat_post demo_env demo_store demo_request) key = Some d"
    "map_of d (lit ''history'') = Some (Arr h)"
    "length h = min 20 (length (existingHistory (userData demo_store key)) + 2)"
    by blast
  then show ?thesis
    using demo_status by (auto simp: demo_key demo_prior)
qed

subsection \<open>C2: eviction is first in, first out\<close>

text \<open>
  C2. The history persisted by a successful POST is a suffix of the prior history followed
  by the new user entry and the new persona entry: the oldest entries are the ones
  dropped, and the two new entries are its last two.
\<close>

theorem history_eviction_fifo:
  assumes "status (tzevaotChat_post E db rb) = 200"
  shows "\<exists>key rep h d.
    normalizedWallet (lower_beyond E) (request_field rb (lit ''walletAddress'')) = Some key \<and>
    body (tzevaotChat_post E db rb) = ChatJson rep h \<and>
    store_after (tzevaotChat_post E db rb) key = Some d \<and>
    map_of d (lit ''history'') = Some (Arr h) \<and>
    (let prior = existingHistory (userData db key);
         user_entry = Obj [(lit ''from'', Str (lit ''user'')),
                           (lit ''text'', request_field rb (lit ''message'')),
                           (lit ''ts'', Num (date_now E))];
         persona_entry = Obj [(lit ''from'', Str (lit ''tzevaot'')),
                              (lit ''text'', Str rep),
                              (lit ''ts'', Num (date_now E))]
     in suffix h (prior @ [user_entry, persona_entry]) \<and>
        h = drop (length prior + 2 - 20) (prior @ [user_entry, persona_entry]) \<and>
        h = drop (length prior - 18) prior @ [user_entry, persona_entry])"
proof -
  from assms obtain key nd rep h where
    "normalizedWallet (lower_beyond E) (request_field rb (lit ''walletAddress'')) = Some key"
    "h = trimmedHistory (newHistory (existingHistory (userData db key))
           (request_field rb (lit ''message'')) rep (date_now E))"
    "body (tzevaotChat_post E db rb) = ChatJson rep h"
    "store_after (tzevaotChat_post E db rb) =
       db(key \<mapsto> set_merge (server_time E) (db key)
          (record_update (request_field rb (lit ''isHolder''))
             (request_field rb (lit ''message'')) rep h nd))"
    by (rule post_200)
  then show ?thesis
    by (simp add: stored_history trimmedHistory_def newHistory_def slice_last_def
        Let_def suffix_drop)
qed

theorem history_eviction_fifo_witness:
  "status (tzevaotChat_post demo_env demo_store demo_request) = 200 \<and>
   (\<exists>rep h.
      body (tzevaotChat_post demo_env demo_store demo_request) = ChatJson rep h \<and>
      h = map past_entry [3, 4, 5, 6, 7, 8, 9, 10, 11, 12, 13, 14, 15, 16, 17, 18, 19, 20]
          @ [Obj [(lit ''from'', Str (lit ''user'')), (lit ''text'', Str (lit ''Hello'')),
                  (lit ''ts'', Num 1700000000000)],
             Obj [(lit ''from'', Str (lit ''tzevaot'')), (lit ''text'', Str rep),
                  (lit ''ts'', Num 1700000000000)]])"
proof -
  from history_eviction_fifo [OF demo_status] obtain key rep h where
    key: "normalizedWallet (lower_beyond demo_env)
       (request_field demo_request (lit ''walletAddress'')) = Some key"
    and body: "body (tzevaotChat_post demo_env demo_store demo_request) = ChatJson rep h"
    and h: "h = drop (length (existingHistory (userData demo_store key)) - 18)
           (existingHistory (userData demo_store key))
         @ [Obj [(lit ''from'', Str (lit ''user'')),
                 (lit ''text'', request_field demo_request (lit ''message'')),
                 (lit ''ts'', Num (date_now demo_env))],
            Obj [(lit ''from'', Str (lit ''tzevaot'')), (lit ''text'', Str rep),
                 (lit ''ts'', Num (date_now demo_env))]]"
    unfolding Let_def by blast
  from key have k: "key = lit ''0xabc''"
    by (simp add: demo_key)
  from body h show ?thesis
    using demo_status unfolding k by (simp add: demo_prior demo_fields demo_now)
qed

subsection \<open>C3: the owned days are replaced or kept\<close>

text \<open>
  C3. After a successful POST the persisted \<open>daysOwned\<close> is the supplied array when the
  request supplies a non-empty one, and otherwise the stored array (empty when none is
  stored). In both cases every element has passed through \<open>String\<close>, which leaves a
  sequence of strings as it is: a supplied sequence of strings replaces the stored one,
  and a stored sequence of strings is carried over unchanged by a request without the
  field or with an empty array.
\<close>

theorem owned_days_replaced_or_kept:
  assumes "status (tzevaotChat_post E db rb) = 200"
  shows "\<exists>key d nd.
    normalizedWallet (lower_beyond E) (request_field rb (lit ''walletAddress'')) = Some key \<and>
    store_after (tzevaotChat_post E db rb) key = Some d \<and>
    map_of d (lit ''daysOwned'') = Some (Arr (map Str nd)) \<and>
    (let supplied = request_field rb (lit ''daysOwned'');
         stored = get_prop (userData db key) (lit ''daysOwned'')
     in if isArray supplied \<and> elems supplied \<noteq> []
        then map_throwing js_String (elems supplied) = Some nd \<and>
             (list_all is_string (elems supplied) \<longrightarrow> Arr (map Str nd) = supplied)
        else if isArray stored
        then map_throwing js_String (elems stored) = Some nd \<and>
             (list_all is_string (elems stored) \<longrightarrow> Arr (map Str nd) = stored)
        else nd = [])"
proof -
  from assms obtain key nd msgs rep h where
    key: "normalizedWallet (lower_beyond E) (request_field rb (lit ''walletAddress'')) = Some key"
    and prep: "prepare E (request_field rb (lit ''walletAddress''))
       (request_field rb (lit ''isHolder''))
       (request_field rb (lit ''message'')) (request_field rb (lit ''daysOwned''))
       (userData db key) = Inr (nd, msgs)"
    and store: "store_after (tzevaotChat_post E db rb) =
       db(key \<mapsto> set_merge (server_time E) (db key)
          (record_update (request_field rb (lit ''isHolder''))
             (request_field rb (lit ''message'')) rep h nd))"
    by (rule post_200)
  from prep have nd: "normalizedDaysOwned (request_field rb (lit ''daysOwned''))
      (userData db key) = Some nd"
    by (rule prepare_Inr)
  have "let supplied = request_field rb (lit ''daysOwned'');
         stored = get_prop (userData db key) (lit ''daysOwned'')
     in if isArray supplied \<and> elems supplied \<noteq> []
        then map_throwing js_String (elems supplied) = Some nd \<and>
             (list_all is_string (elems supplied) \<longrightarrow> Arr (map Str nd) = supplied)
        else if isArray stored
        then map_throwing js_String (elems stored) = Some nd \<and>
             (list_all is_string (elems stored) \<longrightarrow> Arr (map Str nd) = stored)
        else nd = []"
    using nd
    by (auto simp: normalizedDaysOwned_def Let_def strings_unchanged isArray_elems
        split: if_splits)
  moreover from store have "store_after (tzevaotChat_post E db rb) key =
      Some (set_merge (server_time E) (db key)
          (record_update (request_field rb (lit ''isHolder''))
             (request_field rb (lit ''message'')) rep h nd))"
    by simp
  moreover have "map_of (set_merge (server_time E) (db key)
          (record_update (request_field rb (lit ''isHolder''))
             (request_field rb (lit ''message'')) rep h nd)) (lit ''daysOwned'')
      = Some (Arr (map Str nd))"
    by (rule stored_daysOwned)
  ultimately show ?thesis
    using key by blast
qed

theorem owned_days_replaced_or_kept_witness:
  "status (tzevaotChat_post demo_env demo_store demo_request) = 200 \<and>
   (\<exists>d. store_after (tzevaotChat_post demo_env demo_store demo_request) (lit ''0xabc'') = Some d \<and>
        map_of d (lit ''daysOwned'')
          = Some (Arr [Str (lit ''100''), Str (lit ''500''), Str (lit ''2000'')])) \<and>
   status (tzevaotChat_post demo_env demo_store plain_request) = 200 \<and>
   get_prop (userData demo_store (lit ''0xabc'')) (lit ''daysOwned'') = Arr [Str (lit ''7'')] \<and>
   (\<exists>d. store_after (tzevaotChat_post demo_env demo_store plain_request) (lit ''0xabc'') = Some d \<and>
        map_of d (lit ''daysOwned'') = Some (Arr [Str (lit ''7'')]))"
proof -
  from owned_days_replaced_or_kept [OF demo_status] obtain key d nd where
    key: "normalizedWallet (lower_beyond demo_env)
       (request_field demo_request (lit ''walletAddress'')) = Some key"
    and d: "store_after (tzevaotChat_post demo_env demo_store demo_request) key = Some d"
    and days: "map_of d (lit ''daysOwned'') = Some (Arr (map Str nd))"
    and which: "let supplied = request_field demo_request (lit ''daysOwned'');
         stored = get_prop (userData demo_store key) (lit ''daysOwned'')
     in if isArray supplied \<and> elems supplied \<noteq> []
        then map_throwing js_String (elems supplied) = Some nd \<and>
             (list_all is_string (elems supplied) \<longrightarrow> Arr (map Str nd) = supplied)
        else if isArray stored
        then map_throwing js_String (elems stored) = Some nd \<and>
             (list_all is_string (elems stored) \<longrightarrow> Arr (map Str nd) = stored)
        else nd = []"
    by blast
  from key have k: "key = lit ''0xabc''"
    by (simp add: demo_key)
  from which have "Arr (map Str nd) = Arr [Str (lit ''100''), Str (lit ''500''), Str (lit ''2000'')]"
    by (simp add: demo_fields Let_def)
  with d days have first: "\<exists>d.
      store_after (tzevaotChat_post demo_env demo_store demo_request) (lit ''0xabc'') = Some d \<and>
      map_of d (lit ''daysOwned'')
        = Some (Arr [Str (lit ''100''), Str (lit ''500''), Str (lit ''2000'')])"
    unfolding k by simp
  from owned_days_replaced_or_kept [OF plain_status] obtain key' d' nd' where
    key': "normalizedWallet (lower_beyond demo_env)
       (request_field plain_request (lit ''walletAddress'')) = Some key'"
    and d': "store_after (tzevaotChat_post demo_env demo_store plain_request) key' = Some d'"
    and days': "map_of d' (lit ''daysOwned'') = Some (Arr (map Str nd'))"
    and which': "let supplied = request_field plain_request (lit ''daysOwned'');
         stored = get_prop (userData demo_store key') (lit ''daysOwned'')
     in if isArray supplied \<and> elems supplied \<noteq> []
        then map_throwing js_String (elems supplied) = Some nd' \<and>
             (list_all is_string (elems supplied) \<longrightarrow> Arr (map Str nd') = supplied)
        else if isArray stored
        then map_throwing js_String (elems stored) = Some nd' \<and>
             (list_all is_string (elems stored) \<longrightarrow> Arr (map Str nd') = stored)
        else nd' = []"
    by blast
  from key' have k': "key' = lit ''0xabc''"
    by (simp add: plain_key)
  from which' have "Arr (map Str nd') = Arr [Str (lit ''7'')]"
    unfolding k' by (simp add: plain_fields demo_stored_days Let_def)
  with d' days' have second: "\<exists>d.
      store_after (tzevaotChat_post demo_env demo_store plain_request) (lit ''0xabc'') = Some d \<and>
      map_of d (lit ''daysOwned'') = Some (Arr [Str (lit ''7'')])"
    unfolding k' by simp
  from first second demo_status plain_status demo_stored_days show ?thesis
    by blast
qed

subsection \<open>C4: the fallback reply\<close>

text \<open>
  C4. In a successful POST the reply is never empty, it is persisted as \<open>lastReply\<close>
  and it is the text of the persona entry that ends the history; when the provider
  returned no text, or white space only, the reply is the fixed fallback string.
\<close>

theorem fallback_reply_on_empty_text:
  assumes "status (tzevaotChat_post E db rb) = 200"
  shows "\<exists>key msgs completion rep h d.
    normalizedWallet (lower_beyond E) (request_field rb (lit ''walletAddress'')) = Some key \<and>
    CreateCompletion msgs \<in> set (effects (tzevaotChat_post E db rb)) \<and>
    create_completion E msgs = Inr completion \<and>
    body (tzevaotChat_post E db rb) = ChatJson rep h \<and>
    rep \<noteq> [] \<and>
    (no_text completion \<longrightarrow> rep = fallback_reply) \<and>
    store_after (tzevaotChat_post E db rb) key = Some d \<and>
    map_of d (lit ''lastReply'') = Some (Str rep) \<and>
    h \<noteq> [] \<and>
    last h = Obj [(lit ''from'', Str (lit ''tzevaot'')), (lit ''text'', Str rep),
                  (lit ''ts'', Num (date_now E))]"
proof -
  from assms obtain key nd msgs completion rep h where
    key: "normalizedWallet (lower_beyond E) (request_field rb (lit ''walletAddress'')) = Some key"
    and call: "create_completion E msgs = Inr completion"
    and rep: "rep = reply completion"
    and h: "h = trimmedHistory (newHistory (existingHistory (userData db key))
           (request_field rb (lit ''message'')) rep (date_now E))"
    and body: "body (tzevaotChat_post E db rb) = ChatJson rep h"
    and store: "store_after (tzevaotChat_post E db rb) =
       db(key \<mapsto> set_merge (server_time E) (db key)
          (record_update (request_field rb (lit ''isHolder''))
             (request_field rb (lit ''message'')) rep h nd))"
    and fx: "effects (tzevaotChat_post E db rb) =
       [DocGet key, CreateCompletion msgs,
        DocSet key (record_update (request_field rb (lit ''isHolder''))
          (request_field rb (lit ''message'')) rep h nd)]"
    by (rule post_200)
  have fallback: "no_text completion \<longrightarrow> rep = fallback_reply"
    by (auto simp: rep reply_def no_text_def trim_Nil_iff split: list.splits option.splits)
  have nonempty: "rep \<noteq> []"
    by (simp add: rep reply_nonempty)
  have tail: "h \<noteq> [] \<and> last h = Obj [(lit ''from'', Str (lit ''tzevaot'')),
      (lit ''text'', Str rep), (lit ''ts'', Num (date_now E))]"
    by (simp add: h trimmedHistory_def newHistory_def slice_last_append2)
  from key call body store fx fallback nonempty tail show ?thesis
    by (simp add: stored_lastReply)
qed

theorem fallback_reply_on_empty_text_witness:
  "status (tzevaotChat_post silent_env demo_store demo_request) = 200 \<and>
   (\<forall>msgs. create_completion silent_env msgs = Inr [Some (lit ''   '')]) \<and>
   no_text [Some (lit ''   '')] \<and>
   (\<exists>h d.
      body (tzevaotChat_post silent_env demo_store demo_request) = ChatJson fallback_reply h \<and>
      store_after (tzevaotChat_post silent_env demo_store demo_request) (lit ''0xabc'') = Some d \<and>
      map_of d (lit ''lastReply'') = Some (Str fallback_reply) \<and>
      last h = Obj [(lit ''from'', Str (lit ''tzevaot'')), (lit ''text'', Str fallback_reply),
                    (lit ''ts'', Num 1700000000000)])"
proof -
  from fallback_reply_on_empty_text [OF silent_status] obtain key msgs completion rep h d where
    key: "normalizedWallet (lower_beyond silent_env)
       (request_field demo_request (lit ''walletAddress'')) = Some key"
    and call: "create_completion silent_env msgs = Inr completion"
    and body: "body (tzevaotChat_post silent_env demo_store demo_request) = ChatJson rep h"
    and fallback: "no_text completion \<longrightarrow> rep = fallback_reply"
    and d: "store_after (tzevaotChat_post silent_env demo_store demo_request) key = Some d"
    and stored: "map_of d (lit ''lastReply'') = Some (Str rep)"
    and tail: "last h = Obj [(lit ''from'', Str (lit ''tzevaot'')), (lit ''text'', Str rep),
                  (lit ''ts'', Num (date_now silent_env))]"
    by blast
  from key have k: "key = lit ''0xabc''"
    by (simp add: demo_fields demo_wallet silent_env_fields)
  from call have "completion = [Some (lit ''   '')]"
    by (simp add: silent_env_fields)
  with fallback have rep: "rep = fallback_reply"
    by (simp add: blank_text)
  from body d stored tail show ?thesis
    using silent_status blank_text unfolding k rep by (simp add: silent_env_fields)
qed

subsection \<open>C5: a failing read of the document\<close>

text \<open>
  The specification has a POST whose read of the document fails go on with the empty
  default and still return the reply. The read \<open>userRef.get()\<close> stands inside the
  \<open>try\<close> block of the POST branch, so a read that fails ends the request in the
  \<open>catch\<close> block. On the sample request with a store that rejects the read, the answer
  is the 500 response with the error's message: the read is the only call made, the
  provider is not called, and no reply is returned.
\<close>

theorem load_failure_counterexample:
  "get_fault down_env (lit ''0xabc'') = Some (lit ''UNAVAILABLE'') \<and>
   status (tzevaotChat_post down_env Map.empty demo_request) = 500 \<and>
   body (tzevaotChat_post down_env Map.empty demo_request) = ErrorJson (lit ''UNAVAILABLE'') \<and>
   effects (tzevaotChat_post down_env Map.empty demo_request) = [DocGet (lit ''0xabc'')]"
  by (simp add: tzevaotChat_post_def Let_def server_error_def demo_fields demo_wallet
      down_env_fields)

text \<open>
  C5, as the code has it. When the read of the document fails in a POST whose
  \<open>walletAddress\<close> and \<open>message\<close> are present, the handler answers with status 500 and
  the message of the error (or "Internal server error" when that is empty); the read is
  the only call made, so the provider is not called, no write is attempted and the store
  is left as it was.
\<close>

theorem load_failure_is_server_error:
  assumes "truthy (request_field rb (lit ''walletAddress''))"
    and "truthy (request_field rb (lit ''message''))"
    and "normalizedWallet (lower_beyond E) (request_field rb (lit ''walletAddress'')) = Some key"
    and "get_fault E key = Some m"
  shows "tzevaotChat_post E db rb =
    \<lparr>status = 500,
     body = ErrorJson (if m = [] then lit ''Internal server error'' else m),
     store_after = db, effects = [DocGet key]\<rparr>"
  using assms by (simp add: tzevaotChat_post_def Let_def server_error_def)

theorem load_failure_is_server_error_witness:
  "truthy (request_field demo_request (lit ''walletAddress'')) \<and>
   truthy (request_field demo_request (lit ''message'')) \<and>
   normalizedWallet (lower_beyond down_env) (request_field demo_request (lit ''walletAddress''))
     = Some (lit ''0xabc'') \<and>
   get_fault down_env (lit ''0xabc'') = Some (lit ''UNAVAILABLE'') \<and>
   tzevaotChat_post down_env demo_store demo_request =
     \<lparr>status = 500, body = ErrorJson (lit ''UNAVAILABLE''),
      store_after = demo_store, effects = [DocGet (lit ''0xabc'')]\<rparr>"
proof -
  have a: "truthy (request_field demo_request (lit ''walletAddress''))"
    and b: "truthy (request_field demo_request (lit ''message''))"
    by (simp_all add: demo_fields)
  have c: "normalizedWallet (lower_beyond down_env)
      (request_field demo_request (lit ''walletAddress'')) = Some (lit ''0xabc'')"
    by (simp add: demo_fields demo_wallet down_env_fields)
  have d: "get_fault down_env (lit ''0xabc'') = Some (lit ''UNAVAILABLE'')"
    by (simp add: down_env_fields)
  from load_failure_is_server_error [OF a b c d, of demo_store] a b c d show ?thesis
    by simp
qed

subsection \<open>C6: the messages sent to the provider\<close>

text \<open>
  C6. Whenever a POST calls the provider, the message list is one system message with the
  prompt, then one message for each of the last 10 stored history entries, in their
  order (role \<open>user\<close> for an entry from \<open>user\<close>, \<open>assistant\<close> for any other, content the
  entry's text), then one user message with the new message: 12 messages at most.
\<close>

theorem provider_messages:
  assumes "CreateCompletion msgs \<in> set (effects (tzevaotChat_post E db rb))"
  shows "\<exists>key nd prompt between.
    normalizedWallet (lower_beyond E) (request_field rb (lit ''walletAddress'')) = Some key \<and>
    systemPrompt (request_field rb (lit ''walletAddress'')) (request_field rb (lit ''isHolder''))
      (userData db key) nd = Some prompt \<and>
    msgs = \<lparr>role = lit ''system'', content = Str prompt\<rparr> # between
           @ [\<lparr>role = lit ''user'', content = request_field rb (lit ''message'')\<rparr>] \<and>
    list_all2
      (\<lambda>entry m. role m = (if get_prop entry (lit ''from'') = Str (lit ''user'')
                            then lit ''user'' else lit ''assistant'') \<and>
                  content m = get_prop entry (lit ''text''))
      (slice_last 10 (existingHistory (userData db key))) between \<and>
    length between = min 10 (length (existingHistory (userData db key))) \<and>
    length msgs \<le> 12"
proof -
  from assms obtain key nd where
    key: "normalizedWallet (lower_beyond E) (request_field rb (lit ''walletAddress'')) = Some key"
    and prep: "prepare E (request_field rb (lit ''walletAddress''))
       (request_field rb (lit ''isHolder''))
       (request_field rb (lit ''message'')) (request_field rb (lit ''daysOwned''))
       (userData db key) = Inr (nd, msgs)"
    by (rule post_called)
  from prep obtain prompt between where
    prompt: "systemPrompt (request_field rb (lit ''walletAddress''))
       (request_field rb (lit ''isHolder'')) (userData db key) nd = Some prompt"
    and between: "map_throwing entry_message
       (historyForContext (existingHistory (userData db key))) = Some between"
    and msgs: "msgs = \<lparr>role = lit ''system'', content = Str prompt\<rparr> # between
            @ [\<lparr>role = lit ''user'', content = request_field rb (lit ''message'')\<rparr>]"
    by (rule prepare_Inr)
  from between have all2: "list_all2 (\<lambda>entry m. entry_message entry = Some m)
      (slice_last 10 (existingHistory (userData db key))) between"
    by (simp add: map_throwing_Some historyForContext_def)
  then have roles: "list_all2
      (\<lambda>entry m. role m = (if get_prop entry (lit ''from'') = Str (lit ''user'')
                            then lit ''user'' else lit ''assistant'') \<and>
                  content m = get_prop entry (lit ''text''))
      (slice_last 10 (existingHistory (userData db key))) between"
    by (rule list_all2_mono) (simp add: entry_message_Some)
  from all2 have len: "length between = min 10 (length (existingHistory (userData db key)))"
    by (auto dest: list_all2_lengthD)
  from msgs len have "length msgs \<le> 12"
    by simp
  with key prompt msgs roles len show ?thesis
    by blast
qed

theorem provider_messages_witness:
  "\<exists>msgs. CreateCompletion msgs \<in> set (effects (tzevaotChat_post demo_env demo_store demo_request)) \<and>
     length msgs = 12 \<and>
     map role msgs =
       [lit ''system'',
        lit ''user'', lit ''assistant'', lit ''user'', lit ''assistant'', lit ''user'',
        lit ''assistant'', lit ''user'', lit ''assistant'', lit ''user'', lit ''assistant'',
        lit ''user''] \<and>
     map content (tl msgs) =
       map (\<lambda>n. Str (digits n)) [11, 12, 13, 14, 15, 16, 17, 18, 19, 20] @ [Str (lit ''Hello'')]"
proof -
  from demo_called obtain msgs where called: "CreateCompletion msgs
      \<in> set (effects (tzevaotChat_post demo_env demo_store demo_request))"
    by (elim exE)
  from provider_messages [OF called] obtain key nd prompt between where
    key: "normalizedWallet (lower_beyond demo_env)
       (request_field demo_request (lit ''walletAddress'')) = Some key"
    and "systemPrompt (request_field demo_request (lit ''walletAddress''))
       (request_field demo_request (lit ''isHolder'')) (userData demo_store key) nd = Some prompt"
    and msgs: "msgs = \<lparr>role = lit ''system'', content = Str prompt\<rparr> # between
           @ [\<lparr>role = lit ''user'', content = request_field demo_request (lit ''message'')\<rparr>]"
    and all2: "list_all2
      (\<lambda>entry m. role m = (if get_prop entry (lit ''from'') = Str (lit ''user'')
                            then lit ''user'' else lit ''assistant'') \<and>
                  content m = get_prop entry (lit ''text''))
      (slice_last 10 (existingHistory (userData demo_store key))) between"
    and len: "length between = min 10 (length (existingHistory (userData demo_store key)))"
    and "length msgs \<le> 12"
    by (elim exE conjE)
  from key have k: "key = lit ''0xabc''"
    by (simp add: demo_key)
  from all2 have window: "list_all2
      (\<lambda>entry m. role m = (if get_prop entry (lit ''from'') = Str (lit ''user'')
                            then lit ''user'' else lit ''assistant'') \<and>
                  content m = get_prop entry (lit ''text''))
      (map past_entry [11, 12, 13, 14, 15, 16, 17, 18, 19, 20]) between"
    unfolding k demo_window .
  from len have ten: "length between = 10"
    unfolding k demo_prior by simp
  have "length msgs = 12"
    unfolding msgs using ten by simp
  moreover have "map role msgs =
       [lit ''system'',
        lit ''user'', lit ''assistant'', lit ''user'', lit ''assistant'', lit ''user'',
        lit ''assistant'', lit ''user'', lit ''assistant'', lit ''user'', lit ''assistant'',
        lit ''user'']"
    unfolding msgs by (simp add: demo_roles(1) [OF window])
  moreover have "map content (tl msgs) =
       map (\<lambda>n. Str (digits n)) [11, 12, 13, 14, 15, 16, 17, 18, 19, 20] @ [Str (lit ''Hello'')]"
    unfolding msgs by (simp add: demo_roles(2) [OF window] demo_fields)
  ultimately show ?thesis
    using called by (intro exI [of _ msgs] conjI)
qed

subsection \<open>C7: the seen count\<close>

text \<open>
  C7. A successful POST leaves the stored \<open>seenCount\<close> one above the count \<open>n\<close> it found
  (\<open>userData.seenCount || 0\<close>), whatever the length of the history, hence however many
  entries the same write evicted.
\<close>

theorem seen_count_increment:
  assumes "status (tzevaotChat_post E db rb) = 200"
  shows "\<exists>key d.
    normalizedWallet (lower_beyond E) (request_field rb (lit ''walletAddress'')) = Some key \<and>
    store_after (tzevaotChat_post E db rb) key = Some d \<and>
    (\<forall>n. js_or (get_prop (userData db key) (lit ''seenCount'')) (Num 0) = Num n \<longrightarrow>
         map_of d (lit ''seenCount'') = Some (Num (n + 1)))"
proof -
  from assms obtain key nd rep h where
    key: "normalizedWallet (lower_beyond E) (request_field rb (lit ''walletAddress'')) = Some key"
    and store: "store_after (tzevaotChat_post E db rb) =
       db(key \<mapsto> set_merge (server_time E) (db key)
          (record_update (request_field rb (lit ''isHolder''))
             (request_field rb (lit ''message'')) rep h nd))"
    by (rule post_200)
  have "js_or (get_prop (userData db key) (lit ''seenCount'')) (Num 0) = Num n \<longrightarrow>
        (case map_of (case db key of None \<Rightarrow> [] | Some d \<Rightarrow> d) (lit ''seenCount'') of
           Some (Num m) \<Rightarrow> Num (m + 1) | _ \<Rightarrow> Num 1) = Num (n + 1)" for n
    by (auto simp: userData_def js_or_def split: option.splits jsval.splits if_splits)
  with key store show ?thesis
    by (simp add: stored_seenCount)
qed

theorem seen_count_increment_witness:
  "status (tzevaotChat_post demo_env demo_store demo_request) = 200 \<and>
   js_or (get_prop (userData demo_store (lit ''0xabc'')) (lit ''seenCount'')) (Num 0) = Num 10 \<and>
   (\<exists>d. store_after (tzevaotChat_post demo_env demo_store demo_request) (lit ''0xabc'') = Some d \<and>
        map_of d (lit ''seenCount'') = Some (Num 11))"
proof -
  from seen_count_increment [OF demo_status] obtain key d where
    key: "normalizedWallet (lower_beyond demo_env)
       (request_field demo_request (lit ''walletAddress'')) = Some key"
    and d: "store_after (tzevaotChat_post demo_env demo_store demo_request) key = Some d"
    and count: "\<forall>n. js_or (get_prop (userData demo_store key) (lit ''seenCount'')) (Num 0) = Num n
        \<longrightarrow> map_of d (lit ''seenCount'') = Some (Num (n + 1))"
    by blast
  from key have k: "key = lit ''0xabc''"
    by (simp add: demo_key)
  have seen: "js_or (get_prop (userData demo_store (lit ''0xabc'')) (lit ''seenCount'')) (Num 0)
      = Num 10"
    by (simp add: demo_stored_seen js_or_def)
  with count have "map_of d (lit ''seenCount'') = Some (Num 11)"
    unfolding k by simp
  with d seen demo_status show ?thesis
    unfolding k by blast
qed

subsection \<open>C8: loading an identity never seen\<close>

text \<open>
  C8. A GET for an identity that has no document, on a store that answers the read,
  returns status 200 with the empty default: empty history, \<open>isHolder\<close> false,
  \<open>seenCount\<close> 0 and no owned days; it reads the document and writes nothing.
\<close>

theorem load_of_unseen_identity:
  assumes "truthy (get_prop q (lit ''walletAddress''))"
    and "normalizedWallet (lower_beyond E) (get_prop q (lit ''walletAddress'')) = Some key"
    and "get_fault E key = None"
    and "db key = None"
  shows "tzevaotChat_get E db q =
    \<lparr>status = 200, body = ProfileJson [] False (Num 0) [],
     store_after = db, effects = [DocGet key]\<rparr>"
  using assms by (simp add: tzevaotChat_get_def Let_def)

theorem load_of_unseen_identity_witness:
  "truthy (get_prop demo_query (lit ''walletAddress'')) \<and>
   normalizedWallet (lower_beyond demo_env) (get_prop demo_query (lit ''walletAddress''))
     = Some (lit ''0xabc'') \<and>
   get_fault demo_env (lit ''0xabc'') = None \<and>
   Map.empty (lit ''0xabc'') = (None :: doc option) \<and>
   tzevaotChat_get demo_env Map.empty demo_query =
     \<lparr>status = 200, body = ProfileJson [] False (Num 0) [],
      store_after = Map.empty, effects = [DocGet (lit ''0xabc'')]\<rparr>"
proof -
  have wallet: "get_prop demo_query (lit ''walletAddress'') = Str (lit ''0xABC'')"
    by (simp add: demo_query_def)
  have a: "truthy (get_prop demo_query (lit ''walletAddress''))"
    by (simp add: wallet)
  have b: "normalizedWallet (lower_beyond demo_env) (get_prop demo_query (lit ''walletAddress''))
     = Some (lit ''0xabc'')"
    by (simp add: wallet demo_wallet demo_env_def)
  have c: "get_fault demo_env (lit ''0xabc'') = None"
    by (simp add: demo_env_def)
  have d: "Map.empty (lit ''0xabc'') = (None :: doc option)"
    by simp
  from load_of_unseen_identity [OF a b c d] a b c d show ?thesis
    by blast
qed

subsection \<open>C9: normalization and case\<close>

text \<open>
  The specification states the law for every identity string. Lower-casing after
  upper-casing is not lower-casing for every string: the sharp s U+00DF is its own lower
  case, its upper case is "SS", and the lower case of that is "ss". The two spellings
  get different storage keys.
\<close>

theorem normalize_sharp_s_counterexample:
  "normalizedWallet id (Str [0xDF]) = Some [0xDF] \<and>
   toUpperCase id [0xDF] = [0x53, 0x53] \<and>
   normalizedWallet id (Str (toUpperCase id [0xDF])) = Some [0x73, 0x73] \<and>
   normalizedWallet id (Str [0xDF]) \<noteq> normalizedWallet id (Str (toUpperCase id [0xDF]))"
  by (simp add: normalizedWallet_def toLowerCase_def toUpperCase_def latin1_def
      lower_unit_def upper_unit_def)

text \<open>
  C9, for ASCII strings, which hexadecimal wallet addresses are. For every identity
  string \<open>A\<close> of ASCII characters, the key is the lower-cased string, letter by letter;
  it is the key of the upper-cased \<open>A\<close>, normalizing the key again gives the key, and two
  ASCII strings with the same upper case have the same key.
\<close>

theorem normalize_ascii_case_insensitive:
  assumes "ascii A"
  shows "normalizedWallet L (Str A) = Some (toLowerCase L A) \<and>
    toLowerCase L A = map lower_unit A \<and>
    normalizedWallet L (Str (toUpperCase U A)) = normalizedWallet L (Str A) \<and>
    normalizedWallet L (Str (toLowerCase L A)) = normalizedWallet L (Str A) \<and>
    (\<forall>B. ascii B \<and> toUpperCase U B = toUpperCase U A \<longrightarrow>
         normalizedWallet L (Str B) = normalizedWallet L (Str A))"
proof -
  have up: "toLowerCase L (toUpperCase U s) = toLowerCase L s" if "ascii s" for s
    using that by (simp add: toUpperCase_ascii toLowerCase_ascii ascii_upper lower_upper_ascii)
  have low: "toLowerCase L (toLowerCase L A) = toLowerCase L A"
    by (simp only: toLowerCase_ascii [OF assms] toLowerCase_ascii [OF ascii_lower [OF assms]]
        lower_lower_ascii [OF assms])
  have same: "toLowerCase L B = toLowerCase L A"
    if "ascii B" and "toUpperCase U B = toUpperCase U A" for B
  proof -
    have "toLowerCase L B = toLowerCase L (toUpperCase U B)"
      by (simp only: up [OF that(1)])
    also have "\<dots> = toLowerCase L (toUpperCase U A)"
      by (simp only: that(2))
    also have "\<dots> = toLowerCase L A"
      by (rule up [OF assms])
    finally show ?thesis .
  qed
  have n: "normalizedWallet L (Str s) = Some (toLowerCase L s)" for s
    by (simp add: normalizedWallet_def)
  show ?thesis
  proof (intro conjI allI impI)
    show "normalizedWallet L (Str A) = Some (toLowerCase L A)"
      by (rule n)
    show "toLowerCase L A = map lower_unit A"
      by (rule toLowerCase_ascii [OF assms])
    show "normalizedWallet L (Str (toUpperCase U A)) = normalizedWallet L (Str A)"
      by (simp only: n up [OF assms])
    show "normalizedWallet L (Str (toLowerCase L A)) = normalizedWallet L (Str A)"
      by (simp only: n low)
    fix B
    assume "ascii B \<and> toUpperCase U B = toUpperCase U A"
    then have "toLowerCase L B = toLowerCase L A"
      by (blast intro: same)
    then show "normalizedWallet L (Str B) = normalizedWallet L (Str A)"
      by (simp only: n)
  qed
qed

theorem normalize_ascii_case_insensitive_witness:
  "ascii (lit ''0xAbC'') \<and>
   normalizedWallet id (Str (lit ''0xAbC'')) = Some (lit ''0xabc'') \<and>
   toUpperCase id (lit ''0xAbC'') = lit ''0XABC'' \<and>
   normalizedWallet id (Str (lit ''0XABC'')) = Some (lit ''0xabc'') \<and>
   normalizedWallet id (Str (lit ''0xabc'')) = Some (lit ''0xabc'') \<and>
   ascii (lit ''0xaBc'') \<and> toUpperCase id (lit ''0xaBc'') = toUpperCase id (lit ''0xAbC'') \<and>
   normalizedWallet id (Str (lit ''0xaBc'')) = Some (lit ''0xabc'')"
proof -
  have a: "ascii (lit ''0xAbC'')" and b: "ascii (lit ''0xaBc'')"
    by (simp_all add: ascii_def lit_def)
  have low: "toLowerCase id (lit ''0xAbC'') = lit ''0xabc''"
    by (simp add: toLowerCase_def latin1_def lower_unit_def lit_def)
  have up: "toUpperCase id (lit ''0xAbC'') = lit ''0XABC''"
    "toUpperCase id (lit ''0xaBc'') = lit ''0XABC''"
    by (simp_all add: toUpperCase_def latin1_def upper_unit_def lit_def)
  note T = normalize_ascii_case_insensitive [OF a, of id id]
  from T have "normalizedWallet id (Str (lit ''0xAbC'')) = Some (toLowerCase id (lit ''0xAbC''))"
    by blast
  then have n1: "normalizedWallet id (Str (lit ''0xAbC'')) = Some (lit ''0xabc'')"
    by (simp only: low)
  from T have "normalizedWallet id (Str (toUpperCase id (lit ''0xAbC'')))
      = normalizedWallet id (Str (lit ''0xAbC''))"
    by blast
  then have n2: "normalizedWallet id (Str (lit ''0XABC'')) = Some (lit ''0xabc'')"
    by (simp only: up n1)
  from T have "normalizedWallet id (Str (toLowerCase id (lit ''0xAbC'')))
      = normalizedWallet id (Str (lit ''0xAbC''))"
    by blast
  then have n3: "normalizedWallet id (Str (lit ''0xabc'')) = Some (lit ''0xabc'')"
    by (simp only: low n1)
  have "toUpperCase id (lit ''0xaBc'') = toUpperCase id (lit ''0xAbC'')"
    by (simp only: up)
  with T b have "normalizedWallet id (Str (lit ''0xaBc''))
      = normalizedWallet id (Str (lit ''0xAbC''))"
    by blast
  then have n4: "normalizedWallet id (Str (lit ''0xaBc'')) = Some (lit ''0xabc'')"
    by (simp only: n1)
  from a b up n1 n2 n3 n4 show ?thesis
    by simp
qed

subsection \<open>C10: the owned days are strings\<close>

text \<open>
  C10. After every successful POST the persisted \<open>daysOwned\<close> is an array whose elements
  are all strings, whether it came from the request or from the stored document.
\<close>

theorem owned_days_are_strings:
  assumes "status (tzevaotChat_post E db rb) = 200"
  shows "\<exists>key d ds.
    normalizedWallet (lower_beyond E) (request_field rb (lit ''walletAddress'')) = Some key \<and>
    store_after (tzevaotChat_post E db rb) key = Some d \<and>
    map_of d (lit ''daysOwned'') = Some (Arr ds) \<and>
    list_all is_string ds"
proof -
  from assms obtain key nd rep h where
    key: "normalizedWallet (lower_beyond E) (request_field rb (lit ''walletAddress'')) = Some key"
    and store: "store_after (tzevaotChat_post E db rb) =
       db(key \<mapsto> set_merge (server_time E) (db key)
          (record_update (request_field rb (lit ''isHolder''))
             (request_field rb (lit ''message'')) rep h nd))"
    by (rule post_200)
  have "list_all is_string (map Str nd)"
    by (simp add: list_all_iff)
  with key store show ?thesis
    by (simp add: stored_daysOwned)
qed

theorem owned_days_are_strings_witness:
  "status (tzevaotChat_post demo_env demo_store numeric_request) = 200 \<and>
   request_field numeric_request (lit ''daysOwned'') = Arr [Num 100, Str (lit ''500'')] \<and>
   (\<exists>d ds.
      store_after (tzevaotChat_post demo_env demo_store numeric_request) (lit ''0xabc'') = Some d \<and>
      map_of d (lit ''daysOwned'') = Some (Arr ds) \<and>
      ds = [Str (lit ''100''), Str (lit ''500'')] \<and>
      list_all is_string ds)"
proof -
  from owned_days_are_strings [OF numeric_status] obtain key d ds where
    key: "normalizedWallet (lower_beyond demo_env)
       (request_field numeric_request (lit ''walletAddress'')) = Some key"
    and d: "store_after (tzevaotChat_post demo_env demo_store numeric_request) key = Some d"
    and days: "map_of d (lit ''daysOwned'') = Some (Arr ds)"
    and strings: "list_all is_string ds"
    by blast
  from key have k: "key = lit ''0xabc''"
    by (simp add: numeric_fields demo_wallet demo_env_def)
  from numeric_stored d days have "ds = [Str (lit ''100''), Str (lit ''500'')]"
    unfolding k by auto
  with d days strings numeric_status show ?thesis
    unfolding k by (simp add: numeric_fields)
qed

end
